theory Spec2Isabelle
  imports Complex_Main
begin

section \<open>Conventions of the embedding\<close>

text \<open>
  The program is a single-instrument market-making simulator written in Python.
  Every Python \<^verbatim>\<open>float\<close> is modelled by a \<^typ>\<open>real\<close>: arithmetic is exact, so
  the theorems below speak about the program up to floating-point rounding, and the
  non-finite floats (NaN, infinities) have no counterpart.
  A read of the wall clock (\<^verbatim>\<open>time.time()\<close>) is an explicit argument of the
  function that performs it.
  A Python exception is a value of \<open>py_error\<close>, returned on the left of a sum.
\<close>

datatype py_error = ZeroDivisionError | KeyError | StatisticsError | ValueError

text \<open>Python's \<^verbatim>\<open>a / b\<close> on floats: a zero divisor raises.\<close>

definition py_div :: "real \<Rightarrow> real \<Rightarrow> py_error + real" where
  "py_div a b = (if b = 0 then Inl ZeroDivisionError else Inr (a / b))"

text \<open>\<^verbatim>\<open>int(x)\<close> truncates towards zero; \<^verbatim>\<open>str\<close> of an int is its decimal numeral.\<close>

definition py_int :: "real \<Rightarrow> int" where
  "py_int x = (if 0 \<le> x then \<lfloor>x\<rfloor> else \<lceil>x\<rceil>)"

fun str_nat :: "nat \<Rightarrow> string" where
  "str_nat n =
     (if n < 10 then [char_of (48 + n)]
      else str_nat (n div 10) @ [char_of (48 + n mod 10)])"

definition str_int :: "int \<Rightarrow> string" where
  "str_int i = (if i < 0 then CHR ''-'' # str_nat (nat (- i)) else str_nat (nat i))"

text \<open>\<^verbatim>\<open>deque(maxlen=n).append(x)\<close>: the oldest entries are evicted beyond \<open>n\<close>.\<close>

definition deque_append :: "nat \<Rightarrow> 'a list \<Rightarrow> 'a \<Rightarrow> 'a list" where
  "deque_append maxlen xs x = (let ys = xs @ [x] in drop (length ys - maxlen) ys)"

section \<open>Data model (models.py, strategy.py, portfolio.py)\<close>

record OrderBookLevel =
  level_price :: real
  level_size :: real

record Trade =
  trade_timestamp :: real
  trade_price :: real
  trade_size :: real
  trade_side :: string

record Quote =
  quote_side :: string
  quote_price :: real
  quote_size :: real
  quote_timestamp :: real

record Fill =
  fill_timestamp :: real
  fill_side :: string
  fill_price :: real
  fill_size :: real
  fill_trade_id :: string

record PortfolioState =
  q :: real
  cash :: real
  nav :: real
  pnl :: real
  btc_balance :: real
  usd_balance :: real
  total_btc_bought :: real
  total_btc_sold :: real
  total_usd_spent :: real
  total_usd_received :: real
  realized_pnl :: real
  unrealized_pnl :: real
  avg_entry_price :: real
  total_trades :: int

record PortfolioManager =
  state :: PortfolioState
  max_inventory :: real
  min_inventory :: real
  fills_history :: "Fill list"
  recent_fills :: "Fill list"
  pnl_history :: "real list"

section \<open>The live ledger (portfolio.py)\<close>

text \<open>\<^verbatim>\<open>PortfolioManager.__init__(initial_usd, max_inventory)\<close>.\<close>

definition PortfolioManager_init :: "real \<Rightarrow> real \<Rightarrow> PortfolioManager" where
  "PortfolioManager_init initial_usd max_inv =
     \<lparr> state = \<lparr> q = 0, cash = 0, nav = 0, pnl = 0, btc_balance = 0,
                  usd_balance = initial_usd, total_btc_bought = 0, total_btc_sold = 0,
                  total_usd_spent = 0, total_usd_received = 0, realized_pnl = 0,
                  unrealized_pnl = 0, avg_entry_price = 0, total_trades = 0 \<rparr>,
       max_inventory = max_inv,
       min_inventory = - max_inv,
       fills_history = [],
       recent_fills = [],
       pnl_history = [] \<rparr>"

text \<open>
  \<^verbatim>\<open>_update_avg_entry_price_on_fill(side, price, executed, q_before, q_after)\<close>:
  the single blended average of the open leg, reset when the position crosses zero.
\<close>

definition update_avg_entry_price_on_fill ::
  "string \<Rightarrow> real \<Rightarrow> real \<Rightarrow> real \<Rightarrow> real \<Rightarrow> PortfolioState \<Rightarrow> PortfolioState" where
  "update_avg_entry_price_on_fill side price executed q_before q_after s =
     (if executed \<le> 0 then s
      else
        let avg = avg_entry_price s in
        if side = ''buy'' then
          (if q_before \<ge> 0 then
             (let base = q_before; add = executed in
              s\<lparr>avg_entry_price :=
                  (if base + add > 0 then (avg * base + price * add) / (base + add) else 0)\<rparr>)
           else if q_after < 0 then s
           else if q_after = 0 then s\<lparr>avg_entry_price := 0\<rparr>
           else s\<lparr>avg_entry_price := price\<rparr>)
        else
          (if q_before \<le> 0 then
             (let base = - q_before; add = executed in
              s\<lparr>avg_entry_price :=
                  (if base + add > 0 then (avg * base + price * add) / (base + add) else 0)\<rparr>)
           else if q_after > 0 then s
           else if q_after = 0 then s\<lparr>avg_entry_price := 0\<rparr>
           else s\<lparr>avg_entry_price := price\<rparr>))"

text \<open>
  \<^verbatim>\<open>process_fill_market_making(fill)\<close>. The position is re-clipped to the inventory
  band; a fill that moves nothing returns before any field is written.
\<close>

definition process_fill_market_making :: "PortfolioManager \<Rightarrow> Fill \<Rightarrow> PortfolioManager" where
  "process_fill_market_making pm fill =
     (let st = state pm; old_q = q st in
      if fill_side fill = ''buy'' then
        (let new_q = min (old_q + fill_size fill) (max_inventory pm);
             actual_fill_size = new_q - old_q in
         if actual_fill_size \<le> 0 then pm
         else
           let st1 = st\<lparr>cash := cash st - actual_fill_size * fill_price fill, q := new_q\<rparr>;
               st2 = update_avg_entry_price_on_fill (fill_side fill) (fill_price fill)
                       actual_fill_size old_q (q st1) st1;
               st3 = st2\<lparr>total_trades := total_trades st2 + 1\<rparr>;
               st4 = st3\<lparr>btc_balance := q st3\<rparr>;
               st5 = st4\<lparr>total_btc_bought := total_btc_bought st4 + actual_fill_size,
                         total_usd_spent := total_usd_spent st4 + actual_fill_size * fill_price fill\<rparr>
           in pm\<lparr>state := st5,
                 fills_history := deque_append 1000 (fills_history pm) fill,
                 recent_fills := deque_append 10 (recent_fills pm) fill\<rparr>)
      else
        (let new_q = max (old_q - fill_size fill) (min_inventory pm);
             actual_fill_size = old_q - new_q in
         if actual_fill_size \<le> 0 then pm
         else
           let st1 = st\<lparr>cash := cash st + actual_fill_size * fill_price fill, q := new_q\<rparr>;
               st2 = update_avg_entry_price_on_fill (fill_side fill) (fill_price fill)
                       actual_fill_size old_q (q st1) st1;
               st3 = st2\<lparr>total_trades := total_trades st2 + 1\<rparr>;
               st4 = st3\<lparr>btc_balance := q st3\<rparr>;
               st5 = st4\<lparr>total_btc_sold := total_btc_sold st4 + actual_fill_size,
                         total_usd_received :=
                           total_usd_received st4 + actual_fill_size * fill_price fill\<rparr>
           in pm\<lparr>state := st5,
                 fills_history := deque_append 1000 (fills_history pm) fill,
                 recent_fills := deque_append 10 (recent_fills pm) fill\<rparr>))"

text \<open>
  \<^verbatim>\<open>simulate_fill_from_trade(market_trade, our_bid_price, our_ask_price,
  our_bid_size, our_ask_size)\<close>. A quote price is \<^verbatim>\<open>Optional[float]\<close> and is tested
  for truth, so both \<^verbatim>\<open>None\<close> and \<^verbatim>\<open>0.0\<close> count as no quote. The two clock
  reads of a fill (its timestamp and the number in its id) are \<open>now\<close> and \<open>now_id\<close>.
\<close>

definition truthy :: "real option \<Rightarrow> bool" where
  "truthy p = (case p of None \<Rightarrow> False | Some v \<Rightarrow> v \<noteq> 0)"

text \<open>
  The first part of the method: the fill it decides on, if any. Each early
  \<^verbatim>\<open>return None\<close> of the source is the value \<open>None\<close> here.
\<close>

definition simulated_fill ::
  "PortfolioManager \<Rightarrow> Trade \<Rightarrow> real option \<Rightarrow> real option \<Rightarrow> real \<Rightarrow> real \<Rightarrow> real \<Rightarrow> real
     \<Rightarrow> Fill option" where
  "simulated_fill pm market_trade our_bid_price our_ask_price our_bid_size our_ask_size
       now now_id =
     (if truthy our_bid_price \<and> our_bid_size > 0 \<and> trade_side market_trade = ''sell''
         \<and> trade_price market_trade \<le> the our_bid_price then
        (let fill_size0 = min our_bid_size (trade_size market_trade);
             max_buy_size = max_inventory pm - q (state pm) in
         if max_buy_size \<le> 0 then None
         else
           let fill_size1 = min fill_size0 max_buy_size in
           if fill_size1 \<le> 0 then None
           else
             Some \<lparr> fill_timestamp = now, fill_side = ''buy'',
                     fill_price = the our_bid_price, fill_size = fill_size1,
                     fill_trade_id = ''fill_bid_'' @ str_int (py_int (now_id * 1000000)) \<rparr>)
      else if truthy our_ask_price \<and> our_ask_size > 0 \<and> trade_side market_trade = ''buy''
         \<and> trade_price market_trade \<ge> the our_ask_price then
        (let fill_size0 = min our_ask_size (trade_size market_trade);
             max_sell_size = q (state pm) - min_inventory pm in
         if max_sell_size \<le> 0 then None
         else
           let fill_size1 = min fill_size0 max_sell_size in
           if fill_size1 \<le> 0 then None
           else
             Some \<lparr> fill_timestamp = now, fill_side = ''sell'',
                     fill_price = the our_ask_price, fill_size = fill_size1,
                     fill_trade_id = ''fill_ask_'' @ str_int (py_int (now_id * 1000000)) \<rparr>)
      else None)"

text \<open>
  The end of the method: \<^verbatim>\<open>if fill: self.process_fill_market_making(fill)\<close>, then
  \<^verbatim>\<open>return fill\<close>. The result is the fill and the ledger after the call.
\<close>

definition simulate_fill_from_trade ::
  "PortfolioManager \<Rightarrow> Trade \<Rightarrow> real option \<Rightarrow> real option \<Rightarrow> real \<Rightarrow> real \<Rightarrow> real \<Rightarrow> real
     \<Rightarrow> Fill option \<times> PortfolioManager" where
  "simulate_fill_from_trade pm market_trade our_bid_price our_ask_price our_bid_size our_ask_size
       now now_id =
     (case simulated_fill pm market_trade our_bid_price our_ask_price our_bid_size our_ask_size
             now now_id of
        None \<Rightarrow> (None, pm)
      | Some fill \<Rightarrow> (Some fill, process_fill_market_making pm fill))"

text \<open>
  \<^verbatim>\<open>update_nav_and_pnl(fair_price)\<close>: the mark. The P&L history keeps at most
  1000 entries (\<^verbatim>\<open>pop(0)\<close> once it is longer).
\<close>

definition update_nav_and_pnl :: "PortfolioManager \<Rightarrow> real \<Rightarrow> PortfolioManager" where
  "update_nav_and_pnl pm fair_price =
     (let st = state pm;
          st1 = st\<lparr>nav := q st * fair_price\<rparr>;
          st2 = st1\<lparr>pnl := cash st1 + nav st1\<rparr>;
          st3 = st2\<lparr>realized_pnl := cash st2\<rparr>;
          st4 = st3\<lparr>unrealized_pnl := nav st3\<rparr>;
          h = pnl_history pm @ [pnl st4]
      in pm\<lparr>state := st4, pnl_history := (if length h > 1000 then tl h else h)\<rparr>)"

text \<open>
  \<^verbatim>\<open>get_portfolio_summary()\<close>. The dictionary is a record of its numeric entries
  (the display string \<^verbatim>\<open>inventory_limit\<close> is left out). Its last entry divides by
  the inventory cap; a dictionary display evaluates all its entries, so a fault in one
  is a fault of the call.
\<close>

record PortfolioSummary =
  sum_btc_balance :: real
  sum_usd_balance :: real
  sum_avg_entry_price :: real
  sum_realized_pnl :: real
  sum_unrealized_pnl :: real
  sum_total_pnl :: real
  sum_total_trades :: int
  sum_recent_fills :: "Fill list"
  sum_total_btc_bought :: real
  sum_total_btc_sold :: real
  sum_total_usd_spent :: real
  sum_total_usd_received :: real
  sum_notional_exposure :: real
  sum_cash :: real
  sum_position_q :: real
  sum_nav :: real
  sum_inventory_utilization :: real

definition get_portfolio_summary :: "PortfolioManager \<Rightarrow> py_error + PortfolioSummary" where
  "get_portfolio_summary pm =
     (let st = state pm in
      case py_div \<bar>q st\<bar> (max_inventory pm) of
        Inl e \<Rightarrow> Inl e
      | Inr util \<Rightarrow>
          Inr \<lparr> sum_btc_balance = q st,
                sum_usd_balance = usd_balance st,
                sum_avg_entry_price = avg_entry_price st,
                sum_realized_pnl = cash st,
                sum_unrealized_pnl = nav st,
                sum_total_pnl = pnl st,
                sum_total_trades = total_trades st,
                sum_recent_fills = recent_fills pm,
                sum_total_btc_bought = total_btc_bought st,
                sum_total_btc_sold = total_btc_sold st,
                sum_total_usd_spent = total_usd_spent st,
                sum_total_usd_received = total_usd_received st,
                sum_notional_exposure = \<bar>nav st\<bar>,
                sum_cash = cash st,
                sum_position_q = q st,
                sum_nav = nav st,
                sum_inventory_utilization = util * 100 \<rparr>)"

text \<open>
  The calls that move the ledger, and a run of them from a given ledger. A state is
  reachable when it is the result of a run from \<open>PortfolioManager_init\<close>.
\<close>

datatype ledger_call =
    Simulate Trade "real option" "real option" real real real real
  | Process Fill
  | Mark real

fun ledger_step :: "PortfolioManager \<Rightarrow> ledger_call \<Rightarrow> PortfolioManager" where
  "ledger_step pm (Simulate t bp ap bs as now now_id) =
     snd (simulate_fill_from_trade pm t bp ap bs as now now_id)"
| "ledger_step pm (Process f) = process_fill_market_making pm f"
| "ledger_step pm (Mark fp) = update_nav_and_pnl pm fp"

definition ledger_run :: "PortfolioManager \<Rightarrow> ledger_call list \<Rightarrow> PortfolioManager" where
  "ledger_run pm calls = foldl ledger_step pm calls"

definition inventory_ok :: "PortfolioManager \<Rightarrow> bool" where
  "inventory_ok pm \<longleftrightarrow>
     min_inventory pm = - max_inventory pm \<and> \<bar>q (state pm)\<bar> \<le> max_inventory pm"

section \<open>The quote engine (strategy.py)\<close>

record MarketMakingConfig =
  base_spread_bps :: real
  min_spread_bps :: real
  max_spread_bps :: real
  base_order_size :: real
  max_order_size :: real
  max_notional_exposure :: real
  max_loss_allowed :: real
  quote_refresh_interval :: real
  tick_size :: real
  asym_deadband_pct :: real
  asym_bps_step :: real

text \<open>The defaults of the dataclass.\<close>

definition MarketMakingConfig_default :: MarketMakingConfig where
  "MarketMakingConfig_default =
     \<lparr> base_spread_bps = 10, min_spread_bps = 5, max_spread_bps = 50,
       base_order_size = 5 / 100, max_order_size = 1,
       max_notional_exposure = 1000000, max_loss_allowed = 100000,
       quote_refresh_interval = 1 / 10, tick_size = 1 / 100,
       asym_deadband_pct = 20 / 100, asym_bps_step = 2 \<rparr>"

record SimpleMarketMaker =
  config :: MarketMakingConfig
  is_active :: bool
  last_quote_time :: real
  current_bid :: "Quote option"
  current_ask :: "Quote option"
  quotes_posted :: int
  quotes_updated :: int

definition SimpleMarketMaker_init :: "MarketMakingConfig \<Rightarrow> SimpleMarketMaker" where
  "SimpleMarketMaker_init cfg =
     \<lparr> config = cfg, is_active = False, last_quote_time = 0,
       current_bid = None, current_ask = None, quotes_posted = 0, quotes_updated = 0 \<rparr>"

definition calculate_fair_price ::
  "OrderBookLevel list \<Rightarrow> OrderBookLevel list \<Rightarrow> real option" where
  "calculate_fair_price bids asks =
     (if bids = [] \<or> asks = [] then None
      else
        let best_bid = level_price (hd bids); best_ask = level_price (hd asks) in
        if best_ask \<le> best_bid then None
        else Some ((best_bid + best_ask) / 2))"

definition calculate_order_size :: "MarketMakingConfig \<Rightarrow> real \<Rightarrow> string \<Rightarrow> real" where
  "calculate_order_size cfg current_position side =
     (let base = base_order_size cfg in max (1 / 100) (min base (max_order_size cfg)))"

definition check_risk_limits :: "MarketMakingConfig \<Rightarrow> real \<Rightarrow> real \<Rightarrow> real \<Rightarrow> bool" where
  "check_risk_limits cfg current_position total_pnl current_price =
     (let notional_exposure = \<bar>current_position\<bar> * current_price in
      if notional_exposure > max_notional_exposure cfg then True
      else if total_pnl < - max_loss_allowed cfg then True
      else False)"

text \<open>
  \<^verbatim>\<open>generate_quotes(bids, asks, current_position, total_pnl, unrealized_pnl)\<close>; \<open>now\<close>
  is its clock read. The exposure ratio is computed from \<^verbatim>\<open>abs(current_position)\<close>,
  as the source does, and the division by \<^verbatim>\<open>max_notional_exposure\<close> is unguarded.
\<close>

definition generate_quotes ::
  "MarketMakingConfig \<Rightarrow> OrderBookLevel list \<Rightarrow> OrderBookLevel list \<Rightarrow> real \<Rightarrow> real \<Rightarrow> real
     \<Rightarrow> real \<Rightarrow> py_error + (Quote option \<times> Quote option)" where
  "generate_quotes cfg bids asks current_position total_pnl unrealized now =
     (case calculate_fair_price bids asks of
        None \<Rightarrow> Inr (None, None)
      | Some fair_price \<Rightarrow>
          let best_bid = level_price (hd bids); best_ask = level_price (hd asks) in
          if best_ask \<le> best_bid then Inr (None, None)
          else if check_risk_limits cfg current_position total_pnl fair_price
          then Inr (None, None)
          else
            let notional_exposure = \<bar>current_position\<bar> * fair_price in
            case py_div notional_exposure (max_notional_exposure cfg) of
              Inl e \<Rightarrow> Inl e
            | Inr expo \<Rightarrow>
                let expo_abs = \<bar>expo\<bar>;
                    deadband = asym_deadband_pct cfg;
                    step_bps = asym_bps_step cfg;
                    off_bps =
                      (if expo_abs \<le> deadband then 0
                       else if expo_abs \<le> 40 / 100 then 1 * step_bps
                       else if expo_abs \<le> 60 / 100 then 2 * step_bps
                       else 3 * step_bps);
                    (bid_price, ask_price) =
                      (if off_bps > 0 then
                         (let off_usd = fair_price * off_bps / 10000 in
                          if expo > 0 then
                            (best_bid, max (best_bid + tick_size cfg) (best_ask - off_usd))
                          else if expo < 0 then
                            (min (best_ask - tick_size cfg) (best_bid + off_usd), best_ask)
                          else (best_bid, best_ask))
                       else (best_bid, best_ask));
                    bid_size = calculate_order_size cfg current_position ''bid'';
                    ask_size = calculate_order_size cfg current_position ''ask'';
                    bid_quote =
                      (if bid_size > 1 / 100
                       then Some \<lparr> quote_side = ''bid'', quote_price = bid_price,
                                   quote_size = bid_size, quote_timestamp = now \<rparr>
                       else None);
                    ask_quote =
                      (if ask_size > 1 / 100
                       then Some \<lparr> quote_side = ''ask'', quote_price = ask_price,
                                   quote_size = ask_size, quote_timestamp = now \<rparr>
                       else None)
                in Inr (bid_quote, ask_quote))"

definition should_update_quotes :: "SimpleMarketMaker \<Rightarrow> real \<Rightarrow> bool" where
  "should_update_quotes mm current_time =
     (if current_time - last_quote_time mm > quote_refresh_interval (config mm) then True
      else False)"

definition quote_changed :: "Quote option \<Rightarrow> Quote option \<Rightarrow> bool" where
  "quote_changed old_quote new_quote =
     (case (old_quote, new_quote) of
        (None, None) \<Rightarrow> False
      | (None, Some new) \<Rightarrow> True
      | (Some old, None) \<Rightarrow> True
      | (Some old, Some new) \<Rightarrow>
          (let price_changed = \<bar>quote_price old - quote_price new\<bar> > 1 / 100;
               size_changed = \<bar>quote_size old - quote_size new\<bar> > 1 / 100
           in price_changed \<or> size_changed))"

text \<open>
  \<^verbatim>\<open>update_quotes(bids, asks, current_position, total_pnl, unrealized_pnl)\<close>. Its three
  clock reads are \<open>t_check\<close> (in \<^verbatim>\<open>should_update_quotes\<close>), \<open>t_gen\<close> (the timestamp of
  the generated quotes) and \<open>t_set\<close> (the new \<^verbatim>\<open>last_quote_time\<close>). The result is the
  returned pair and the strategy after the call; \<open>(None, None)\<close> is the no-change result.
\<close>

definition update_quotes ::
  "SimpleMarketMaker \<Rightarrow> OrderBookLevel list \<Rightarrow> OrderBookLevel list \<Rightarrow> real \<Rightarrow> real \<Rightarrow> real
     \<Rightarrow> real \<Rightarrow> real \<Rightarrow> real \<Rightarrow> py_error + ((Quote option \<times> Quote option) \<times> SimpleMarketMaker)" where
  "update_quotes mm bids asks current_position total_pnl unrealized t_check t_gen t_set =
     (if \<not> should_update_quotes mm t_check then Inr ((None, None), mm)
      else
        case generate_quotes (config mm) bids asks current_position total_pnl unrealized t_gen of
          Inl e \<Rightarrow> Inl e
        | Inr (new_bid, new_ask) \<Rightarrow>
            let bid_changed = quote_changed (current_bid mm) new_bid;
                ask_changed = quote_changed (current_ask mm) new_ask
            in
              if bid_changed \<or> ask_changed then
                Inr ((new_bid, new_ask),
                     mm\<lparr> current_bid := new_bid, current_ask := new_ask,
                         last_quote_time := t_set,
                         quotes_updated := quotes_updated mm + 1 \<rparr>)
              else Inr ((None, None), mm))"

section \<open>Spread analytics (spread.py)\<close>

text \<open>
  The loop over one side of the book in \<^verbatim>\<open>calculate_spread_for_size\<close>: the state is
  \<open>(remaining_size, total_cost)\<close>, and the loop stops at the first level reached with
  nothing left to fill.
\<close>

fun walk_levels :: "OrderBookLevel list \<Rightarrow> real \<Rightarrow> real \<Rightarrow> real \<times> real" where
  "walk_levels [] remaining_size total_cost = (remaining_size, total_cost)"
| "walk_levels (l # ls) remaining_size total_cost =
     (if remaining_size \<le> 0 then (remaining_size, total_cost)
      else
        let size_to_take = min remaining_size (level_size l) in
        walk_levels ls (remaining_size - size_to_take) (total_cost + size_to_take * level_price l))"

text \<open>
  One half of the method: the walk, the padding of an unfilled remainder at the last
  level's price, and the division by the target size under its guard. The division is
  Python's, so a fault would show as \<open>Inl\<close>.
\<close>

definition avg_price_for_size :: "OrderBookLevel list \<Rightarrow> real \<Rightarrow> py_error + real" where
  "avg_price_for_size levels target_size =
     (let (remaining_size, total_cost) = walk_levels levels target_size 0;
          total_cost' =
            (if remaining_size > 0 then
               (if levels \<noteq> [] then total_cost + remaining_size * level_price (last levels)
                else total_cost)
             else total_cost)
      in if target_size > 0 then py_div total_cost' target_size else Inr 0)"

definition calculate_spread_for_size ::
  "OrderBookLevel list \<Rightarrow> OrderBookLevel list \<Rightarrow> real \<Rightarrow> py_error + real" where
  "calculate_spread_for_size bids asks target_size =
     (if bids = [] \<or> asks = [] then Inr 0
      else
        case avg_price_for_size bids target_size of
          Inl e \<Rightarrow> Inl e
        | Inr avg_bid_price \<Rightarrow>
            (case avg_price_for_size asks target_size of
               Inl e \<Rightarrow> Inl e
             | Inr avg_ask_price \<Rightarrow> Inr (avg_ask_price - avg_bid_price)))"

text \<open>\<^verbatim>\<open>_ratio(bid_vol, ask_vol)\<close>.\<close>

definition ratio :: "real \<Rightarrow> real \<Rightarrow> py_error + real" where
  "ratio bid_vol ask_vol =
     (let denom = bid_vol + ask_vol in
      if denom \<le> 0 then Inr 0 else py_div (bid_vol - ask_vol) denom)"

text \<open>The slice \<^verbatim>\<open>xs[:n]\<close>: a negative \<open>n\<close> counts from the end.\<close>

definition py_slice_to :: "int \<Rightarrow> 'a list \<Rightarrow> 'a list" where
  "py_slice_to n xs = (if 0 \<le> n then take (nat n) xs else take (nat (int (length xs) + n)) xs)"

definition calc_imbalance_levels ::
  "OrderBookLevel list \<Rightarrow> OrderBookLevel list \<Rightarrow> int \<Rightarrow> py_error + real" where
  "calc_imbalance_levels bids asks levels =
     (if bids = [] \<or> asks = [] then Inr 0
      else
        let bid_vol = sum_list (map level_size (py_slice_to levels bids));
            ask_vol = sum_list (map level_size (py_slice_to levels asks))
        in ratio bid_vol ask_vol)"

text \<open>The loop of \<^verbatim>\<open>calc_imbalance_volume\<close> over one side: state \<open>(rem, vol)\<close>.\<close>

fun take_volume :: "OrderBookLevel list \<Rightarrow> real \<Rightarrow> real \<Rightarrow> real \<times> real" where
  "take_volume [] rem vol = (rem, vol)"
| "take_volume (l # ls) rem vol =
     (if rem \<le> 0 then (rem, vol)
      else let take = min rem (level_size l) in take_volume ls (rem - take) (vol + take))"

definition calc_imbalance_volume ::
  "OrderBookLevel list \<Rightarrow> OrderBookLevel list \<Rightarrow> real \<Rightarrow> py_error + real" where
  "calc_imbalance_volume bids asks target_btc =
     (if bids = [] \<or> asks = [] \<or> target_btc \<le> 0 then Inr 0
      else
        let bid_vol = snd (take_volume bids target_btc 0);
            ask_vol = snd (take_volume asks target_btc 0)
        in ratio bid_vol ask_vol)"

text \<open>
  The rolling windows of the analyzer, one per configured size; the dictionary keyed by
  size is an association list in the order of the source. The unbounded history that
  the analyzer keeps beside the windows is read by the CSV export only and is left out.
\<close>

record SpreadMetrics =
  avg_spread :: real
  med_spread :: real
  min_spread :: real
  max_spread :: real

record SpreadAnalyzer =
  window_size :: nat
  timestamps :: "real list"
  spread_history :: "(real \<times> real list) list"

definition SpreadAnalyzer_init :: "nat \<Rightarrow> SpreadAnalyzer" where
  "SpreadAnalyzer_init n =
     \<lparr> window_size = n, timestamps = [],
       spread_history = [(1 / 10, []), (1, []), (5, []), (10, [])] \<rparr>"

text \<open>
  \<^verbatim>\<open>statistics.mean\<close>, \<^verbatim>\<open>statistics.median\<close>, \<^verbatim>\<open>min\<close> and \<^verbatim>\<open>max\<close>: each
  raises on an empty list, and the mean divides by the length.
\<close>

definition mean :: "real list \<Rightarrow> py_error + real" where
  "mean xs = (if xs = [] then Inl StatisticsError else py_div (sum_list xs) (real (length xs)))"

definition median :: "real list \<Rightarrow> py_error + real" where
  "median xs =
     (if xs = [] then Inl StatisticsError
      else
        let ys = sort xs; n = length ys in
        if n mod 2 = 1 then Inr (ys ! (n div 2))
        else Inr ((ys ! (n div 2 - 1) + ys ! (n div 2)) / 2))"

definition py_min :: "real list \<Rightarrow> py_error + real" where
  "py_min xs = (if xs = [] then Inl ValueError else Inr (Min (set xs)))"

definition py_max :: "real list \<Rightarrow> py_error + real" where
  "py_max xs = (if xs = [] then Inl ValueError else Inr (Max (set xs)))"

definition get_spread_metrics :: "SpreadAnalyzer \<Rightarrow> real \<Rightarrow> py_error + SpreadMetrics" where
  "get_spread_metrics an sz =
     (case map_of (spread_history an) sz of
        None \<Rightarrow> Inl KeyError
      | Some spreads \<Rightarrow>
          if spreads = [] then
            Inr \<lparr> avg_spread = 0, med_spread = 0, min_spread = 0, max_spread = 0 \<rparr>
          else
            case mean spreads of Inl e \<Rightarrow> Inl e | Inr a \<Rightarrow>
            (case median spreads of Inl e \<Rightarrow> Inl e | Inr m \<Rightarrow>
            (case py_min spreads of Inl e \<Rightarrow> Inl e | Inr lo \<Rightarrow>
            (case py_max spreads of Inl e \<Rightarrow> Inl e | Inr hi \<Rightarrow>
               Inr \<lparr> avg_spread = a, med_spread = m, min_spread = lo, max_spread = hi \<rparr>))))"

text \<open>
  The words of the specification for one side of the book: the volume-weighted cost of
  the levels taken from the front, and the part of the target left unfilled, which is
  priced at the last level.
\<close>

fun filled_cost :: "OrderBookLevel list \<Rightarrow> real \<Rightarrow> real" where
  "filled_cost [] target = 0"
| "filled_cost (l # ls) target =
     (if target \<le> 0 then 0
      else min target (level_size l) * level_price l
           + filled_cost ls (target - min target (level_size l)))"

fun unfilled :: "OrderBookLevel list \<Rightarrow> real \<Rightarrow> real" where
  "unfilled [] target = target"
| "unfilled (l # ls) target =
     (if target \<le> 0 then target else unfilled ls (target - min target (level_size l)))"

definition spec_avg_price :: "OrderBookLevel list \<Rightarrow> real \<Rightarrow> real" where
  "spec_avg_price levels target =
     (filled_cost levels target + unfilled levels target * level_price (last levels))
       / target"

section \<open>The offline reconstructor (analyze.py)\<close>












text \<open>The four running variables of \<^verbatim>\<open>compute_pnl_from_trades\<close>, and an output row.\<close>

record pnl_state =
  st_q :: real
  st_ac :: real
  st_cash :: real
  st_realized :: real


text \<open>
  The branch \<^verbatim>\<open>if dq > 0\<close> (a net buy): close an existing short first, then open or
  extend a long with what is left. The result carries the local \<^verbatim>\<open>dq\<close>, which the
  branch decrements and the output row reports.
\<close>

definition net_buy :: "real \<Rightarrow> real \<Rightarrow> pnl_state \<Rightarrow> pnl_state \<times> real" where
  "net_buy price dq st =
     (let (st1, dq1) =
            (if st_q st < 0 then
               (let close = min (- st_q st) dq;
                    realized' = st_realized st + (st_ac st - price) * close;
                    q' = st_q st + close;
                    dq' = dq - close;
                    ac' = (if q' = 0 then 0 else st_ac st)
                in (st\<lparr>st_q := q', st_ac := ac', st_realized := realized'\<rparr>, dq'))
             else (st, dq))
      in
        if dq1 > 0 then
          (let new_long = st_q st1 + dq1;
               ac' = (if new_long \<noteq> 0 then (st_q st1 * st_ac st1 + dq1 * price) / new_long else 0)
           in (st1\<lparr>st_q := new_long, st_ac := ac'\<rparr>, dq1))
        else (st1, dq1))"

text \<open>The branch \<^verbatim>\<open>else\<close> (a net sell), with its local \<^verbatim>\<open>sell_qty\<close>.\<close>

definition net_sell :: "real \<Rightarrow> real \<Rightarrow> pnl_state \<Rightarrow> pnl_state" where
  "net_sell price dq st =
     (let sell_qty = - dq;
          (st1, sell_qty1) =
            (if st_q st > 0 then
               (let close = min (st_q st) sell_qty;
                    realized' = st_realized st + (price - st_ac st) * close;
                    q' = st_q st - close;
                    sell_qty' = sell_qty - close;
                    ac' = (if q' = 0 then 0 else st_ac st)
                in (st\<lparr>st_q := q', st_ac := ac', st_realized := realized'\<rparr>, sell_qty'))
             else (st, sell_qty))
      in
        if sell_qty1 > 0 then
          (let new_short = (- st_q st1) + sell_qty1;
               ac' = (if new_short \<noteq> 0
                      then ((- st_q st1) * st_ac st1 + sell_qty1 * price) / new_short else 0)
           in st1\<lparr>st_ac := ac', st_q := st_q st1 - sell_qty1\<rparr>)
        else st1)"











section \<open>Properties of the live ledger\<close>

text \<open>
  C3. After every call of the mark operation \<open>update_nav_and_pnl\<close> with a fair price:
  \<open>nav = q * fair_price\<close>, \<open>pnl = cash + nav\<close> (hence \<open>pnl = cash + q * fair_price\<close>),
  the exposed \<open>realized_pnl\<close> is the cash, the exposed \<open>unrealized_pnl\<close> is the nav,
  and neither \<open>q\<close> nor \<open>cash\<close> is changed by the mark.
\<close>

theorem update_nav_and_pnl_marks:
  "nav (state (update_nav_and_pnl pm fp)) = q (state (update_nav_and_pnl pm fp)) * fp
   \<and> pnl (state (update_nav_and_pnl pm fp))
       = cash (state (update_nav_and_pnl pm fp)) + nav (state (update_nav_and_pnl pm fp))
   \<and> \<bar>pnl (state (update_nav_and_pnl pm fp))
        - (cash (state (update_nav_and_pnl pm fp)) + q (state (update_nav_and_pnl pm fp)) * fp)\<bar>
       \<le> 1 / 10 ^ 6
   \<and> realized_pnl (state (update_nav_and_pnl pm fp)) = cash (state (update_nav_and_pnl pm fp))
   \<and> unrealized_pnl (state (update_nav_and_pnl pm fp)) = nav (state (update_nav_and_pnl pm fp))
   \<and> q (state (update_nav_and_pnl pm fp)) = q (state pm)
   \<and> cash (state (update_nav_and_pnl pm fp)) = cash (state pm)"
  by (simp add: update_nav_and_pnl_def Let_def)

subsection \<open>The inventory band\<close>

declare str_nat.simps [simp del]

lemma q_update_avg_entry_price_on_fill [simp]:
  "q (update_avg_entry_price_on_fill sd p e qb qa s) = q s"
  by (simp add: update_avg_entry_price_on_fill_def Let_def)

lemma process_fill_limits [simp]:
  "max_inventory (process_fill_market_making pm f) = max_inventory pm"
  "min_inventory (process_fill_market_making pm f) = min_inventory pm"
  by (simp_all add: process_fill_market_making_def Let_def)

lemma process_fill_q:
  "q (state (process_fill_market_making pm f)) =
     (if fill_side f = ''buy'' then
        (if min (q (state pm) + fill_size f) (max_inventory pm) - q (state pm) \<le> 0 then q (state pm)
         else min (q (state pm) + fill_size f) (max_inventory pm))
      else
        (if q (state pm) - max (q (state pm) - fill_size f) (min_inventory pm) \<le> 0 then q (state pm)
         else max (q (state pm) - fill_size f) (min_inventory pm)))"
  by (simp add: process_fill_market_making_def Let_def)

lemma process_fill_inventory_ok:
  assumes "inventory_ok pm"
  shows "inventory_ok (process_fill_market_making pm f)"
proof -
  from assms have a: "min_inventory pm = - max_inventory pm"
    and b: "- max_inventory pm \<le> q (state pm)" "q (state pm) \<le> max_inventory pm"
    by (auto simp: inventory_ok_def)
  have "- max_inventory pm \<le> q (state (process_fill_market_making pm f))
        \<and> q (state (process_fill_market_making pm f)) \<le> max_inventory pm"
    unfolding process_fill_q using a b by (auto simp: min_def max_def)
  with a show ?thesis by (simp add: inventory_ok_def abs_le_iff)
qed

lemma simulate_snd:
  "snd (simulate_fill_from_trade pm t bp ap bs as now nid) =
     (case simulated_fill pm t bp ap bs as now nid of
        None \<Rightarrow> pm | Some f \<Rightarrow> process_fill_market_making pm f)"
  by (simp add: simulate_fill_from_trade_def split: option.split)

lemma simulate_fst:
  "fst (simulate_fill_from_trade pm t bp ap bs as now nid) = simulated_fill pm t bp ap bs as now nid"
  by (simp add: simulate_fill_from_trade_def split: option.split)

lemma mark_keeps_inventory [simp]:
  "max_inventory (update_nav_and_pnl pm fp) = max_inventory pm"
  "min_inventory (update_nav_and_pnl pm fp) = min_inventory pm"
  "q (state (update_nav_and_pnl pm fp)) = q (state pm)"
  by (simp_all add: update_nav_and_pnl_def Let_def)

lemma step_inventory_ok: "inventory_ok pm \<Longrightarrow> inventory_ok (ledger_step pm c)"
proof (cases c)
  case (Simulate t bp ap bs as now nid)
  assume "inventory_ok pm"
  then show ?thesis
    by (simp add: Simulate simulate_snd process_fill_inventory_ok split: option.split)
next
  case (Process f)
  assume "inventory_ok pm"
  then show ?thesis by (simp add: Process process_fill_inventory_ok)
next
  case (Mark fp)
  assume "inventory_ok pm"
  then show ?thesis by (simp add: Mark inventory_ok_def)
qed

lemma step_max_inventory: "max_inventory (ledger_step pm c) = max_inventory pm"
  by (cases c) (simp_all add: simulate_snd split: option.split)

lemma run_inventory_ok: "inventory_ok pm \<Longrightarrow> inventory_ok (ledger_run pm cs)"
  unfolding ledger_run_def
  by (induction cs arbitrary: pm) (simp_all add: step_inventory_ok)

lemma run_max_inventory: "max_inventory (ledger_run pm cs) = max_inventory pm"
  unfolding ledger_run_def
  by (induction cs arbitrary: pm) (simp_all add: step_max_inventory)

text \<open>
  C2. Every state reached from the initial portfolio (\<open>q = 0\<close>) by any sequence of
  \<open>simulate_fill_from_trade\<close> and \<open>process_fill_market_making\<close> calls (marks may be
  interleaved), with an inventory cap \<open>m \<ge> 0\<close>, has \<open>\<bar>q\<bar> \<le> m\<close>: no buy takes \<open>q\<close> above
  \<open>+m\<close> and no sell takes it below \<open>-m\<close>.
\<close>

theorem inventory_bounded:
  "0 \<le> m \<Longrightarrow> \<bar>q (state (ledger_run (PortfolioManager_init usd m) calls))\<bar> \<le> m"
proof -
  assume "0 \<le> m"
  then have "inventory_ok (PortfolioManager_init usd m)"
    by (simp add: inventory_ok_def PortfolioManager_init_def)
  then have "inventory_ok (ledger_run (PortfolioManager_init usd m) calls)"
    by (rule run_inventory_ok)
  then show ?thesis
    by (simp add: inventory_ok_def run_max_inventory PortfolioManager_init_def)
qed

theorem inventory_bounded_witness:
  "(0::real) \<le> 1 \<and>
   \<bar>q (state (ledger_run (PortfolioManager_init 1000000 1)
        [Process \<lparr>fill_timestamp = 0, fill_side = ''buy'', fill_price = 100, fill_size = 3,
                  fill_trade_id = ''a''\<rparr>,
         Mark 110,
         Simulate \<lparr>trade_timestamp = 1, trade_price = 121, trade_size = 7, trade_side = ''buy''\<rparr>
            (Some 100) (Some 120) 5 5 1 1]))\<bar> \<le> 1"
  using inventory_bounded [of 1 1000000
        "[Process \<lparr>fill_timestamp = 0, fill_side = ''buy'', fill_price = 100, fill_size = 3,
                  fill_trade_id = ''a''\<rparr>,
         Mark 110,
         Simulate \<lparr>trade_timestamp = 1, trade_price = 121, trade_size = 7, trade_side = ''buy''\<rparr>
            (Some 100) (Some 120) 5 5 1 1]"]
  by simp

subsection \<open>The fill simulator\<close>

lemma simulated_fill_Some_iff:
  "simulated_fill pm t obp oap bs as now nid = Some f \<longleftrightarrow>
     (truthy obp \<and> trade_side t = ''sell'' \<and> trade_price t \<le> the obp
        \<and> 0 < min (min bs (trade_size t)) (max_inventory pm - q (state pm))
        \<and> f = \<lparr> fill_timestamp = now, fill_side = ''buy'', fill_price = the obp,
                  fill_size = min (min bs (trade_size t)) (max_inventory pm - q (state pm)),
                  fill_trade_id = ''fill_bid_'' @ str_int (py_int (nid * 1000000)) \<rparr>)
   \<or> (truthy oap \<and> trade_side t = ''buy'' \<and> trade_price t \<ge> the oap
        \<and> 0 < min (min as (trade_size t)) (q (state pm) - min_inventory pm)
        \<and> f = \<lparr> fill_timestamp = now, fill_side = ''sell'', fill_price = the oap,
                  fill_size = min (min as (trade_size t)) (q (state pm) - min_inventory pm),
                  fill_trade_id = ''fill_ask_'' @ str_int (py_int (nid * 1000000)) \<rparr>)"
  unfolding simulated_fill_def Let_def
  by (cases "trade_side t = ''sell''"; cases "trade_side t = ''buy''") auto

lemma simulated_fill_SomeD:
  assumes "simulated_fill pm t obp oap bs as now nid = Some f"
  shows "(truthy obp \<and> trade_side t = ''sell'' \<and> trade_price t \<le> the obp
        \<and> 0 < min (min bs (trade_size t)) (max_inventory pm - q (state pm))
        \<and> fill_side f = ''buy'' \<and> fill_price f = the obp
        \<and> fill_size f = min (min bs (trade_size t)) (max_inventory pm - q (state pm)))
   \<or> (truthy oap \<and> trade_side t = ''buy'' \<and> trade_price t \<ge> the oap
        \<and> 0 < min (min as (trade_size t)) (q (state pm) - min_inventory pm)
        \<and> fill_side f = ''sell'' \<and> fill_price f = the oap
        \<and> fill_size f = min (min as (trade_size t)) (q (state pm) - min_inventory pm))"
proof -
  from assms [unfolded simulated_fill_Some_iff]
  show ?thesis
  proof (elim disjE conjE)
    assume "f = \<lparr> fill_timestamp = now, fill_side = ''buy'', fill_price = the obp,
                  fill_size = min (min bs (trade_size t)) (max_inventory pm - q (state pm)),
                  fill_trade_id = ''fill_bid_'' @ str_int (py_int (nid * 1000000)) \<rparr>"
    then have "fill_side f = ''buy''" "fill_price f = the obp"
      "fill_size f = min (min bs (trade_size t)) (max_inventory pm - q (state pm))"
      by simp_all
    moreover assume "truthy obp" "trade_side t = ''sell''" "trade_price t \<le> the obp"
      "0 < min (min bs (trade_size t)) (max_inventory pm - q (state pm))"
    ultimately show ?thesis by blast
  next
    assume "f = \<lparr> fill_timestamp = now, fill_side = ''sell'', fill_price = the oap,
                  fill_size = min (min as (trade_size t)) (q (state pm) - min_inventory pm),
                  fill_trade_id = ''fill_ask_'' @ str_int (py_int (nid * 1000000)) \<rparr>"
    then have "fill_side f = ''sell''" "fill_price f = the oap"
      "fill_size f = min (min as (trade_size t)) (q (state pm) - min_inventory pm)"
      by simp_all
    moreover assume "truthy oap" "trade_side t = ''buy''" "the oap \<le> trade_price t"
      "0 < min (min as (trade_size t)) (q (state pm) - min_inventory pm)"
    ultimately show ?thesis by blast
  qed
qed

lemma simulated_fill_buyI:
  assumes "truthy obp" "trade_side t = ''sell''" "trade_price t \<le> the obp"
    "0 < min (min bs (trade_size t)) (max_inventory pm - q (state pm))"
  shows "\<exists>f. simulated_fill pm t obp oap bs as now nid = Some f \<and> fill_side f = ''buy''"
proof -
  have "simulated_fill pm t obp oap bs as now nid =
     Some \<lparr> fill_timestamp = now, fill_side = ''buy'', fill_price = the obp,
                  fill_size = min (min bs (trade_size t)) (max_inventory pm - q (state pm)),
                  fill_trade_id = ''fill_bid_'' @ str_int (py_int (nid * 1000000)) \<rparr>"
    unfolding simulated_fill_Some_iff using assms by (intro disjI1 conjI) simp_all
  then show ?thesis by simp
qed

lemma simulated_fill_sellI:
  assumes "truthy oap" "trade_side t = ''buy''" "trade_price t \<ge> the oap"
    "0 < min (min as (trade_size t)) (q (state pm) - min_inventory pm)"
  shows "\<exists>f. simulated_fill pm t obp oap bs as now nid = Some f \<and> fill_side f = ''sell''"
proof -
  have "simulated_fill pm t obp oap bs as now nid =
     Some \<lparr> fill_timestamp = now, fill_side = ''sell'', fill_price = the oap,
                  fill_size = min (min as (trade_size t)) (q (state pm) - min_inventory pm),
                  fill_trade_id = ''fill_ask_'' @ str_int (py_int (nid * 1000000)) \<rparr>"
    unfolding simulated_fill_Some_iff using assms by (intro disjI2 conjI) simp_all
  then show ?thesis by simp
qed

lemma buy_neq_sell: "''buy'' \<noteq> ''sell''"
  by simp

lemma bid_fills_iff:
  "(\<exists>f. simulated_fill pm t obp oap bs as now nid = Some f \<and> fill_side f = ''buy'') \<longleftrightarrow>
     truthy obp \<and> trade_side t = ''sell'' \<and> trade_price t \<le> the obp
     \<and> 0 < min (min bs (trade_size t)) (max_inventory pm - q (state pm))"
proof
  assume "\<exists>f. simulated_fill pm t obp oap bs as now nid = Some f \<and> fill_side f = ''buy''"
  then obtain f where f: "simulated_fill pm t obp oap bs as now nid = Some f"
    and s: "fill_side f = ''buy''" by (elim exE conjE)
  from simulated_fill_SomeD [OF f]
  show "truthy obp \<and> trade_side t = ''sell'' \<and> trade_price t \<le> the obp
     \<and> 0 < min (min bs (trade_size t)) (max_inventory pm - q (state pm))"
  proof (elim disjE conjE)
    assume "truthy obp" "trade_side t = ''sell''" "trade_price t \<le> the obp"
      "0 < min (min bs (trade_size t)) (max_inventory pm - q (state pm))"
    then show ?thesis by (intro conjI)
  next
    assume "fill_side f = ''sell''"
    with s have "''buy'' = ''sell''" by (rule trans [OF sym])
    with buy_neq_sell show ?thesis by (rule notE)
  qed
next
  assume "truthy obp \<and> trade_side t = ''sell'' \<and> trade_price t \<le> the obp
     \<and> 0 < min (min bs (trade_size t)) (max_inventory pm - q (state pm))"
  then show "\<exists>f. simulated_fill pm t obp oap bs as now nid = Some f \<and> fill_side f = ''buy''"
    by (elim conjE) (rule simulated_fill_buyI)
qed

lemma ask_fills_iff:
  "(\<exists>f. simulated_fill pm t obp oap bs as now nid = Some f \<and> fill_side f = ''sell'') \<longleftrightarrow>
     truthy oap \<and> trade_side t = ''buy'' \<and> trade_price t \<ge> the oap
     \<and> 0 < min (min as (trade_size t)) (q (state pm) - min_inventory pm)"
proof
  assume "\<exists>f. simulated_fill pm t obp oap bs as now nid = Some f \<and> fill_side f = ''sell''"
  then obtain f where f: "simulated_fill pm t obp oap bs as now nid = Some f"
    and s: "fill_side f = ''sell''" by (elim exE conjE)
  from simulated_fill_SomeD [OF f]
  show "truthy oap \<and> trade_side t = ''buy'' \<and> trade_price t \<ge> the oap
     \<and> 0 < min (min as (trade_size t)) (q (state pm) - min_inventory pm)"
  proof (elim disjE conjE)
    assume "fill_side f = ''buy''"
    then have "''buy'' = ''sell''" using s by (rule trans [OF sym])
    with buy_neq_sell show ?thesis by (rule notE)
  next
    assume "truthy oap" "trade_side t = ''buy''" "the oap \<le> trade_price t"
      "0 < min (min as (trade_size t)) (q (state pm) - min_inventory pm)"
    then show ?thesis by (intro conjI)
  qed
next
  assume "truthy oap \<and> trade_side t = ''buy'' \<and> trade_price t \<ge> the oap
     \<and> 0 < min (min as (trade_size t)) (q (state pm) - min_inventory pm)"
  then show "\<exists>f. simulated_fill pm t obp oap bs as now nid = Some f \<and> fill_side f = ''sell''"
    by (elim conjE) (rule simulated_fill_sellI)
qed

lemma truthy_the: "truthy p \<Longrightarrow> p = Some (the p)"
  by (cases p) (simp_all add: truthy_def)

lemma fill_side_and_size:
  assumes f: "simulated_fill pm t obp oap bs as now nid = Some f"
  shows "(fill_side f = ''buy''
        \<and> fill_size f = min (min bs (trade_size t)) (max_inventory pm - q (state pm))
        \<and> obp = Some (fill_price f))
   \<or> (fill_side f = ''sell''
        \<and> fill_size f = min (min as (trade_size t)) (q (state pm) - min_inventory pm)
        \<and> oap = Some (fill_price f))"
  using simulated_fill_SomeD [OF f]
proof (elim disjE conjE)
  assume "truthy obp" and p: "fill_price f = the obp" and "fill_side f = ''buy''"
    and "fill_size f = min (min bs (trade_size t)) (max_inventory pm - q (state pm))"
  moreover from \<open>truthy obp\<close> have "obp = Some (fill_price f)"
    unfolding p by (rule truthy_the)
  ultimately show ?thesis by (intro disjI1 conjI)
next
  assume "truthy oap" and p: "fill_price f = the oap" and "fill_side f = ''sell''"
    and "fill_size f = min (min as (trade_size t)) (q (state pm) - min_inventory pm)"
  moreover from \<open>truthy oap\<close> have "oap = Some (fill_price f)"
    unfolding p by (rule truthy_the)
  ultimately show ?thesis by (intro disjI2 conjI)
qed

text \<open>
  The rule of the fill simulator for a quote whose price is not zero. The bid fills iff
  the trade is a sell at a price at most the bid price and the clipped size
  \<open>min (min our_bid_size trade.size) (max_inventory - q)\<close> is positive; the ask fills
  iff the trade is a buy at a price at least the ask price and
  \<open>min (min our_ask_size trade.size) (q - min_inventory)\<close> is positive. A fill has the
  clipped size, at most one side fills, and without a fill the ledger is unchanged.
\<close>

lemma bid_fill_rule:
  assumes "p \<noteq> 0"
  shows "(\<exists>f. fst (simulate_fill_from_trade pm t (Some p) oap bs as now nid) = Some f
              \<and> fill_side f = ''buy'')
         \<longleftrightarrow> trade_side t = ''sell'' \<and> trade_price t \<le> p
             \<and> 0 < min (min bs (trade_size t)) (max_inventory pm - q (state pm))"
  unfolding simulate_fst bid_fills_iff using assms by (simp add: truthy_def)

lemma ask_fill_rule:
  assumes "p \<noteq> 0"
  shows "(\<exists>f. fst (simulate_fill_from_trade pm t obp (Some p) bs as now nid) = Some f
              \<and> fill_side f = ''sell'')
         \<longleftrightarrow> trade_side t = ''buy'' \<and> trade_price t \<ge> p
             \<and> 0 < min (min as (trade_size t)) (q (state pm) - min_inventory pm)"
  unfolding simulate_fst ask_fills_iff using assms by (simp add: truthy_def)

lemma fill_size_rule:
  assumes "fst (simulate_fill_from_trade pm t obp oap bs as now nid) = Some f"
  shows "(fill_side f = ''buy''
            \<and> fill_size f = min (min bs (trade_size t)) (max_inventory pm - q (state pm)))
       \<or> (fill_side f = ''sell''
            \<and> fill_size f = min (min as (trade_size t)) (q (state pm) - min_inventory pm))"
proof -
  from assms have "simulated_fill pm t obp oap bs as now nid = Some f"
    unfolding simulate_fst .
  from fill_side_and_size [OF this] show ?thesis
    by (elim disjE conjE) (intro disjI1 conjI, assumption+, intro disjI2 conjI, assumption+)
qed

lemma at_most_one_side_fills:
  "\<not> ((\<exists>f. fst (simulate_fill_from_trade pm t obp oap bs as now nid) = Some f
           \<and> fill_side f = ''buy'')
      \<and> (\<exists>f. fst (simulate_fill_from_trade pm t obp oap bs as now nid) = Some f
           \<and> fill_side f = ''sell''))"
proof (intro notI, elim conjE exE)
  fix f g
  assume "fst (simulate_fill_from_trade pm t obp oap bs as now nid) = Some f"
    "fill_side f = ''buy''"
    "fst (simulate_fill_from_trade pm t obp oap bs as now nid) = Some g"
    "fill_side g = ''sell''"
  then show False by simp
qed

lemma no_fill_keeps_ledger:
  assumes "fst (simulate_fill_from_trade pm t obp oap bs as now nid) = None"
  shows "simulate_fill_from_trade pm t obp oap bs as now nid = (None, pm)"
  using assms by (simp add: simulate_fill_from_trade_def split: option.splits)

lemma nonpositive_clip_no_fill:
  assumes "min (min bs (trade_size t)) (max_inventory pm - q (state pm)) \<le> 0"
    and "min (min as (trade_size t)) (q (state pm) - min_inventory pm) \<le> 0"
  shows "simulate_fill_from_trade pm t obp oap bs as now nid = (None, pm)"
proof (rule no_fill_keeps_ledger)
  show "fst (simulate_fill_from_trade pm t obp oap bs as now nid) = None"
  proof (cases "fst (simulate_fill_from_trade pm t obp oap bs as now nid)")
    case None
    then show ?thesis .
  next
    case (Some f)
    then have "simulated_fill pm t obp oap bs as now nid = Some f"
      unfolding simulate_fst .
    from simulated_fill_SomeD [OF this] assms show ?thesis
      by (elim disjE conjE) simp_all
  qed
qed


text \<open>
  C10. Whenever the fill simulator emits a fill, its price is the maker's own resting
  quote price: \<open>our_bid_price\<close> for a buy, \<open>our_ask_price\<close> for a sell, whatever price
  the market trade printed at.
\<close>

theorem fill_price_is_quote_price:
  assumes "fst (simulate_fill_from_trade pm t obp oap bs as now nid) = Some f"
  shows "(fill_side f = ''buy'' \<and> obp = Some (fill_price f))
       \<or> (fill_side f = ''sell'' \<and> oap = Some (fill_price f))"
proof -
  from assms have "simulated_fill pm t obp oap bs as now nid = Some f"
    unfolding simulate_fst .
  from fill_side_and_size [OF this] show ?thesis
    by (elim disjE conjE) (intro disjI1 conjI, assumption+, intro disjI2 conjI, assumption+)
qed

theorem fill_price_is_quote_price_witness:
  "\<exists>f. fst (simulate_fill_from_trade (PortfolioManager_init 1000000 5)
              \<lparr>trade_timestamp = 0, trade_price = 99, trade_size = 2, trade_side = ''sell''\<rparr>
              (Some 100) (Some 101) (1 / 20) (1 / 20) 1 1) = Some f
       \<and> fill_side f = ''buy'' \<and> fill_price f = 100
       \<and> trade_price \<lparr>trade_timestamp = 0, trade_price = 99, trade_size = 2,
                       trade_side = ''sell''\<rparr> < fill_price f"
proof -
  let ?pm = "PortfolioManager_init 1000000 5"
  let ?t = "\<lparr>trade_timestamp = 0, trade_price = 99, trade_size = 2, trade_side = ''sell''\<rparr>"
  have "truthy (Some 100)" by (simp add: truthy_def)
  moreover have "trade_side ?t = ''sell''" "trade_price ?t \<le> the (Some 100)"
    "0 < min (min (1 / 20) (trade_size ?t)) (max_inventory ?pm - q (state ?pm))"
    by (simp_all add: PortfolioManager_init_def)
  ultimately obtain f where
    f: "simulated_fill ?pm ?t (Some 100) (Some 101) (1 / 20) (1 / 20) 1 1 = Some f"
    and s: "fill_side f = ''buy''"
    using simulated_fill_buyI [of "Some 100" ?t "1 / 20" ?pm "Some 101" "1 / 20" 1 1] by blast
  have f': "fst (simulate_fill_from_trade ?pm ?t (Some 100) (Some 101) (1 / 20) (1 / 20) 1 1)
              = Some f"
    unfolding simulate_fst by (rule f)
  from fill_price_is_quote_price [OF f'] s
  have p: "fill_price f = 100" by auto
  have "trade_price ?t < fill_price f" unfolding p by simp
  with f' s p show ?thesis by (intro exI [of _ f] conjI)
qed


section \<open>Properties of the quote engine\<close>

text \<open>
  The exposure ratio of \<open>generate_quotes\<close> is computed from the absolute position, so
  with a positive price and a positive cap it is never negative: the branch that raises
  the bid is not reached, and a short position is quoted like the long position of the
  same size.
\<close>

lemma check_risk_limits_neg:
  "check_risk_limits cfg (- current_position) = check_risk_limits cfg current_position"
  by (simp add: fun_eq_iff check_risk_limits_def)

lemma calculate_order_size_neg:
  "calculate_order_size cfg (- current_position) = calculate_order_size cfg current_position"
  by (simp add: fun_eq_iff calculate_order_size_def)

lemma generate_quotes_sign_blind:
  "generate_quotes cfg bids asks (- current_position) total_pnl unrealized now
     = generate_quotes cfg bids asks current_position total_pnl unrealized now"
  unfolding generate_quotes_def check_risk_limits_neg calculate_order_size_neg abs_minus_cancel
  by (rule refl)

text \<open>
  C1. A short position of 3 with the default configuration, on the book bid 100000,
  ask 100001: the fair price is 100000.5, the risk gate passes, and the exposure ratio
  0.3000015 is above the deadband 0.2, so the offset is 2 bps of the fair price,
  20.0001. The claim puts the bid at \<open>min (100001 - 0.01) (100000 + 20.0001) = 100000.99\<close>
  and leaves the ask at 100001. The code leaves the bid at 100000 and lowers the ask to
  \<open>max (100000 + 0.01) (100001 - 20.0001) = 100000.01\<close>, as it does for the long
  position of 3.
\<close>

theorem generate_quotes_short_position:
  "\<not> check_risk_limits MarketMakingConfig_default (- 3) 0 (200001 / 2)
   \<and> asym_deadband_pct MarketMakingConfig_default
       < \<bar>(- 3) * (200001 / 2) / max_notional_exposure MarketMakingConfig_default\<bar>
   \<and> generate_quotes MarketMakingConfig_default
        [\<lparr>level_price = 100000, level_size = 1\<rparr>] [\<lparr>level_price = 100001, level_size = 1\<rparr>]
        (- 3) 0 0 7
      = Inr (Some \<lparr>quote_side = ''bid'', quote_price = 100000, quote_size = 1 / 20,
                    quote_timestamp = 7\<rparr>,
             Some \<lparr>quote_side = ''ask'', quote_price = 10000001 / 100, quote_size = 1 / 20,
                    quote_timestamp = 7\<rparr>)
   \<and> generate_quotes MarketMakingConfig_default
        [\<lparr>level_price = 100000, level_size = 1\<rparr>] [\<lparr>level_price = 100001, level_size = 1\<rparr>]
        3 0 0 7
      = Inr (Some \<lparr>quote_side = ''bid'', quote_price = 100000, quote_size = 1 / 20,
                    quote_timestamp = 7\<rparr>,
             Some \<lparr>quote_side = ''ask'', quote_price = 10000001 / 100, quote_size = 1 / 20,
                    quote_timestamp = 7\<rparr>)"
  by (simp add: generate_quotes_def calculate_fair_price_def check_risk_limits_def
      calculate_order_size_def py_div_def MarketMakingConfig_default_def Let_def)

section \<open>Division points\<close>

text \<open>
  The divisions of the spread analytics are guarded: the imbalance ratio, the two
  imbalance measures, the spread for a size and the window statistics return a value on
  every input their types allow, and the value is 0 where the divisor would be zero.
\<close>

lemma ratio_total: "\<exists>r. ratio bid_vol ask_vol = Inr r"
  by (simp add: ratio_def py_div_def Let_def)

lemma ratio_zero_denominator: "bid_vol + ask_vol \<le> 0 \<Longrightarrow> ratio bid_vol ask_vol = Inr 0"
  by (simp add: ratio_def Let_def)

lemma calc_imbalance_levels_total: "\<exists>r. calc_imbalance_levels bids asks n = Inr r"
  using ratio_total by (simp add: calc_imbalance_levels_def Let_def)

lemma calc_imbalance_volume_total: "\<exists>r. calc_imbalance_volume bids asks target_btc = Inr r"
  using ratio_total by (simp add: calc_imbalance_volume_def Let_def)

lemma calc_imbalance_volume_zero_target:
  "target_btc \<le> 0 \<Longrightarrow> calc_imbalance_volume bids asks target_btc = Inr 0"
  by (simp add: calc_imbalance_volume_def)

lemma avg_price_for_size_total: "\<exists>r. avg_price_for_size levels target_size = Inr r"
  by (simp add: avg_price_for_size_def py_div_def Let_def split: prod.split)

lemma avg_price_for_size_zero_target:
  "target_size \<le> 0 \<Longrightarrow> avg_price_for_size levels target_size = Inr 0"
  by (simp add: avg_price_for_size_def Let_def split: prod.split)

lemma calculate_spread_for_size_total:
  "\<exists>r. calculate_spread_for_size bids asks target_size = Inr r"
proof -
  obtain b where b: "avg_price_for_size bids target_size = Inr b"
    using avg_price_for_size_total by blast
  obtain a where a: "avg_price_for_size asks target_size = Inr a"
    using avg_price_for_size_total by blast
  show ?thesis by (simp add: calculate_spread_for_size_def a b)
qed

lemma calculate_spread_for_size_zero_target:
  "target_size \<le> 0 \<Longrightarrow> calculate_spread_for_size bids asks target_size = Inr 0"
  by (simp add: calculate_spread_for_size_def avg_price_for_size_zero_target)

lemma get_spread_metrics_empty_window:
  "map_of (spread_history an) sz = Some [] \<Longrightarrow>
     get_spread_metrics an sz
       = Inr \<lparr> avg_spread = 0, med_spread = 0, min_spread = 0, max_spread = 0 \<rparr>"
  by (simp add: get_spread_metrics_def)

lemma get_spread_metrics_total:
  "map_of (spread_history an) sz = Some spreads \<Longrightarrow> \<exists>m. get_spread_metrics an sz = Inr m"
  by (simp add: get_spread_metrics_def mean_def median_def py_min_def py_max_def py_div_def
      Let_def)

text \<open>
  The division by the inventory cap in the portfolio summary, and the division by the
  notional cap in the quote engine, have no guard: the summary returns iff the cap is
  not zero.
\<close>

lemma get_portfolio_summary_returns_iff:
  "(\<exists>s. get_portfolio_summary pm = Inr s) \<longleftrightarrow> max_inventory pm \<noteq> 0"
  by (simp add: get_portfolio_summary_def py_div_def Let_def)

text \<open>
  C7. A ledger built with an inventory cap of zero: the portfolio summary divides the
  absolute position by the cap and raises \<^verbatim>\<open>ZeroDivisionError\<close>, where the claim
  promises the value 0.0. The quote engine does the same with a notional cap of zero
  and no position.
\<close>

theorem zero_cap_division_faults:
  "get_portfolio_summary (PortfolioManager_init 1000000 0) = Inl ZeroDivisionError
   \<and> generate_quotes (MarketMakingConfig_default\<lparr>max_notional_exposure := 0\<rparr>)
        [\<lparr>level_price = 100000, level_size = 1\<rparr>] [\<lparr>level_price = 100001, level_size = 1\<rparr>]
        0 0 0 7 = Inl ZeroDivisionError"
  by (simp add: get_portfolio_summary_def PortfolioManager_init_def generate_quotes_def
      calculate_fair_price_def check_risk_limits_def py_div_def MarketMakingConfig_default_def
      Let_def)


section \<open>Properties of the spread analytics\<close>

text \<open>
  The loop of \<open>calculate_spread_for_size\<close> carries the part of the target still to
  fill and the cost so far; it ends with the unfilled part and the cost of the levels
  taken from the front.
\<close>

lemma walk_levels_spec:
  "walk_levels levels remaining cost =
     (unfilled levels remaining, cost + filled_cost levels remaining)"
  by (induction levels arbitrary: remaining cost) (simp_all add: Let_def algebra_simps)

lemma unfilled_nonneg: "0 \<le> target \<Longrightarrow> 0 \<le> unfilled levels target"
  by (induction levels arbitrary: target) (simp_all add: min_def)

lemma avg_price_for_size_spec:
  assumes "levels \<noteq> []" and "0 < target"
  shows "avg_price_for_size levels target = Inr (spec_avg_price levels target)"
proof -
  have "0 \<le> unfilled levels target"
    using assms(2) by (simp add: unfilled_nonneg)
  then have "unfilled levels target \<le> 0 \<Longrightarrow> unfilled levels target = 0"
    by simp
  then show ?thesis
    using assms
    by (auto simp add: avg_price_for_size_def walk_levels_spec spec_avg_price_def py_div_def)
qed

text \<open>
  With no negative level size, the unfilled part is what the target exceeds the total
  depth by, and nothing when the depth is sufficient.
\<close>

lemma unfilled_depth:
  assumes "\<forall>l \<in> set levels. 0 \<le> level_size l" and "0 \<le> target"
  shows "unfilled levels target = max 0 (target - sum_list (map level_size levels))"
  using assms
proof (induction levels arbitrary: target)
  case Nil
  then show ?case by simp
next
  case (Cons l ls)
  have s: "0 \<le> sum_list (map level_size ls)"
    using Cons.prems(1) by (intro sum_list_nonneg) auto
  have l: "0 \<le> level_size l"
    using Cons.prems(1) by simp
  show ?case
  proof (cases "target \<le> 0")
    case True
    with Cons.prems(2) have "target = 0" by simp
    with s l show ?thesis by simp
  next
    case False
    have "0 \<le> target - min target (level_size l)" by simp
    with Cons.IH [of "target - min target (level_size l)"] Cons.prems(1)
    have "unfilled ls (target - min target (level_size l))
            = max 0 (target - min target (level_size l) - sum_list (map level_size ls))"
      by simp
    with False s l show ?thesis by (simp add: min_def max_def)
  qed
qed

text \<open>
  C6. \<open>calculate_spread_for_size\<close> returns the difference of the two average prices,
  each the cost of the levels taken from the front plus the unfilled remainder priced at
  the last level, over the target size; it returns 0 for an empty side or a target size
  that is not positive. On the bids 100 for 0.5 then 99 for 10, the average price for
  size 1 is 99.5.
\<close>

theorem calculate_spread_for_size_spec:
  "calculate_spread_for_size bids asks target =
     Inr (if bids = [] \<or> asks = [] \<or> target \<le> 0 then 0
          else spec_avg_price asks target - spec_avg_price bids target)
   \<and> avg_price_for_size
         [\<lparr>level_price = 100, level_size = 1 / 2\<rparr>, \<lparr>level_price = 99, level_size = 10\<rparr>] 1
       = Inr (199 / 2)"
proof (intro conjI)
  show "calculate_spread_for_size bids asks target =
     Inr (if bids = [] \<or> asks = [] \<or> target \<le> 0 then 0
          else spec_avg_price asks target - spec_avg_price bids target)"
  proof (cases "bids = [] \<or> asks = []")
    case True
    then show ?thesis by (auto simp add: calculate_spread_for_size_def)
  next
    case ne: False
    show ?thesis
    proof (cases "target \<le> 0")
      case True
      with ne show ?thesis
        by (simp add: calculate_spread_for_size_def avg_price_for_size_zero_target)
    next
      case False
      with ne show ?thesis
        by (simp add: calculate_spread_for_size_def avg_price_for_size_spec)
    qed
  qed
  show "avg_price_for_size
         [\<lparr>level_price = 100, level_size = 1 / 2\<rparr>, \<lparr>level_price = 99, level_size = 10\<rparr>] 1
       = Inr (199 / 2)"
    by (simp add: avg_price_for_size_def py_div_def Let_def)
qed


section \<open>Properties of the offline reconstructor\<close>
















text \<open>
  What the two branches add to the realized P&L: a buy against a short position closes
  \<open>min (- q) dq\<close> of it at \<open>ac - price\<close> each, a sell against a long position closes
  \<open>min q (- dq)\<close> of it at \<open>price - ac\<close> each, and opening or extending a position
  realizes nothing.
\<close>

lemma net_buy_realized:
  "st_realized (fst (net_buy price dq st))
     = st_realized st + (if st_q st < 0 then (st_ac st - price) * min (- st_q st) dq else 0)"
  by (simp add: net_buy_def Let_def)

lemma net_sell_realized:
  "st_realized (net_sell price dq st)
     = st_realized st + (if 0 < st_q st then (price - st_ac st) * min (st_q st) (- dq) else 0)"
  by (simp add: net_sell_def Let_def)








section \<open>Properties of the refresh gate\<close>

text \<open>
  \<open>quote_changed\<close> compares prices and sizes only, so the clock read that stamps a
  quote does not matter to it.
\<close>

lemma quote_changed_restamp:
  "quote_changed c (map_option (quote_timestamp_update f) n) = quote_changed c n"
  by (cases c; cases n) (simp_all add: quote_changed_def)

text \<open>
  The clock read of \<open>generate_quotes\<close> only stamps the quotes: read at another time,
  the method returns the same quotes with the other stamp, or raises the same error.
\<close>

lemma generate_quotes_restamp:
  "generate_quotes cfg bids asks p t u g2
     = map_sum id (map_prod (map_option (quote_timestamp_update (\<lambda>_. g2)))
                            (map_option (quote_timestamp_update (\<lambda>_. g2))))
         (generate_quotes cfg bids asks p t u g1)"
  unfolding generate_quotes_def Let_def case_prod_beta
  by (simp split: option.split sum.split)

lemma should_update_quotes_iff:
  "should_update_quotes mm now
     \<longleftrightarrow> now - last_quote_time mm > quote_refresh_interval (config mm)"
  by (simp add: should_update_quotes_def)

lemma update_quotes_gated:
  assumes "\<not> should_update_quotes mm t"
  shows "update_quotes mm bids asks p tp u t g s = Inr ((None, None), mm)"
  using assms by (simp add: update_quotes_def)

lemma update_quotes_error:
  assumes "should_update_quotes mm t"
    and "generate_quotes (config mm) bids asks p tp u g = Inl e"
  shows "update_quotes mm bids asks p tp u t g s = Inl e"
  using assms by (simp add: update_quotes_def)

lemma update_quotes_changed:
  assumes "should_update_quotes mm t"
    and "generate_quotes (config mm) bids asks p tp u g = Inr (nb, na)"
    and "quote_changed (current_bid mm) nb \<or> quote_changed (current_ask mm) na"
  shows "update_quotes mm bids asks p tp u t g s
           = Inr ((nb, na),
                  mm\<lparr> current_bid := nb, current_ask := na, last_quote_time := s,
                      quotes_updated := quotes_updated mm + 1 \<rparr>)"
  using assms by (simp add: update_quotes_def Let_def)

lemma update_quotes_same:
  assumes "generate_quotes (config mm) bids asks p tp u g = Inr (nb, na)"
    and "\<not> (quote_changed (current_bid mm) nb \<or> quote_changed (current_ask mm) na)"
  shows "update_quotes mm bids asks p tp u t g s = Inr ((None, None), mm)"
  using assms by (simp add: update_quotes_def Let_def)

text \<open>
  A call that passed the gate, followed within one refresh interval by a call on the
  same inputs. If the first call replaced the quotes, it also restarted the interval and
  the second call is stopped at the gate; if it found no change, the second call
  regenerates the same quotes and finds none either.
\<close>

lemma second_call_no_change:
  assumes gate: "should_update_quotes mm t1"
    and first: "update_quotes mm bids asks p tp u t1 g1 s1 = Inr (res1, mm1)"
    and clock: "t1 \<le> s1"
    and within: "t2 - t1 \<le> quote_refresh_interval (config mm)"
  shows "update_quotes mm1 bids asks p tp u t2 g2 s2 = Inr ((None, None), mm1)"
proof (cases "generate_quotes (config mm) bids asks p tp u g1")
  case (Inl e)
  from update_quotes_error [OF gate Inl] first show ?thesis by simp
next
  case (Inr pair)
  obtain nb na where pair: "pair = (nb, na)" by (cases pair)
  note gen = Inr [unfolded pair]
  show ?thesis
  proof (cases "quote_changed (current_bid mm) nb \<or> quote_changed (current_ask mm) na")
    case True
    from update_quotes_changed [OF gate gen True] first
    have mm1: "mm1 = mm\<lparr> current_bid := nb, current_ask := na, last_quote_time := s1,
                          quotes_updated := quotes_updated mm + 1 \<rparr>"
      by simp
    have "t2 - last_quote_time mm1 \<le> quote_refresh_interval (config mm1)"
      using clock within by (simp add: mm1)
    then have "\<not> should_update_quotes mm1 t2"
      by (simp add: should_update_quotes_iff)
    then show ?thesis by (rule update_quotes_gated)
  next
    case False
    from update_quotes_same [OF gen False] first have mm1: "mm1 = mm" by simp
    have gen2: "generate_quotes (config mm) bids asks p tp u g2
                  = Inr (map_option (quote_timestamp_update (\<lambda>_. g2)) nb,
                         map_option (quote_timestamp_update (\<lambda>_. g2)) na)"
      by (simp add: generate_quotes_restamp [of _ _ _ _ _ _ g2 g1] gen)
    have "\<not> (quote_changed (current_bid mm) (map_option (quote_timestamp_update (\<lambda>_. g2)) nb)
             \<or> quote_changed (current_ask mm) (map_option (quote_timestamp_update (\<lambda>_. g2)) na))"
      using False by (simp add: quote_changed_restamp)
    from update_quotes_same [OF gen2 this] show ?thesis
      unfolding mm1 .
  qed
qed

text \<open>
  C9, as the code has it. The gate is open iff the time since the last quote update
  exceeds the refresh interval. After a call of \<open>update_quotes\<close> that passed the gate
  (its clock reads \<open>t1\<close>, \<open>g1\<close>, \<open>s1\<close> taken in this order, so \<open>t1 \<le> s1\<close>), a second
  call within one refresh interval of the first (\<open>t2 - t1\<close> at most the interval), on
  the same book, position and P&L, returns the no-change result and leaves the strategy,
  and so its current quotes, as they were. A call stopped at the gate returns the no-change result and leaves the
  strategy as it was. When a call passes the gate and finds a significant change on
  either side, both current quotes are replaced by the new pair, which is returned.
\<close>

theorem update_quotes_refresh:
  "(should_update_quotes mm0 now
      \<longleftrightarrow> now - last_quote_time mm0 > quote_refresh_interval (config mm0))
   \<and> (should_update_quotes mm t1
        \<and> update_quotes mm bids asks p tp u t1 g1 s1 = Inr (res1, mm1)
        \<and> t1 \<le> s1 \<and> t2 - t1 \<le> quote_refresh_interval (config mm)
      \<longrightarrow> update_quotes mm1 bids asks p tp u t2 g2 s2 = Inr ((None, None), mm1))
   \<and> (\<not> should_update_quotes mmc tc
      \<longrightarrow> update_quotes mmc bidsc asksc pc tpc uc tc gc sc = Inr ((None, None), mmc))
   \<and> (should_update_quotes mmd td
        \<and> generate_quotes (config mmd) bidsd asksd pd tpd ud gd = Inr (nb, na)
        \<and> (quote_changed (current_bid mmd) nb \<or> quote_changed (current_ask mmd) na)
      \<longrightarrow> (\<exists>mm'. update_quotes mmd bidsd asksd pd tpd ud td gd sd = Inr ((nb, na), mm')
                 \<and> current_bid mm' = nb \<and> current_ask mm' = na
                 \<and> last_quote_time mm' = sd))"
proof (intro conjI impI)
  show "should_update_quotes mm0 now
      \<longleftrightarrow> now - last_quote_time mm0 > quote_refresh_interval (config mm0)"
    by (rule should_update_quotes_iff)
next
  assume "should_update_quotes mm t1
        \<and> update_quotes mm bids asks p tp u t1 g1 s1 = Inr (res1, mm1)
        \<and> t1 \<le> s1 \<and> t2 - t1 \<le> quote_refresh_interval (config mm)"
  then show "update_quotes mm1 bids asks p tp u t2 g2 s2 = Inr ((None, None), mm1)"
    by (elim conjE) (rule second_call_no_change)
next
  assume "\<not> should_update_quotes mmc tc"
  then show "update_quotes mmc bidsc asksc pc tpc uc tc gc sc = Inr ((None, None), mmc)"
    by (rule update_quotes_gated)
next
  assume "should_update_quotes mmd td
        \<and> generate_quotes (config mmd) bidsd asksd pd tpd ud gd = Inr (nb, na)
        \<and> (quote_changed (current_bid mmd) nb \<or> quote_changed (current_ask mmd) na)"
  then have "update_quotes mmd bidsd asksd pd tpd ud td gd sd
           = Inr ((nb, na),
                  mmd\<lparr> current_bid := nb, current_ask := na, last_quote_time := sd,
                      quotes_updated := quotes_updated mmd + 1 \<rparr>)"
    by (elim conjE) (rule update_quotes_changed)
  then show "\<exists>mm'. update_quotes mmd bidsd asksd pd tpd ud td gd sd = Inr ((nb, na), mm')
                 \<and> current_bid mm' = nb \<and> current_ask mm' = na
                 \<and> last_quote_time mm' = sd"
    by simp
qed


theorem update_quotes_refresh_witness:
  "should_update_quotes (SimpleMarketMaker_init MarketMakingConfig_default) 1000
   \<and> update_quotes (SimpleMarketMaker_init MarketMakingConfig_default)
        [\<lparr>level_price = 100000, level_size = 1\<rparr>] [\<lparr>level_price = 100002, level_size = 1\<rparr>]
        0 0 0 1000 1000 1000
       = Inr ((Some \<lparr>quote_side = ''bid'', quote_price = 100000, quote_size = 1 / 20,
                      quote_timestamp = 1000\<rparr>,
               Some \<lparr>quote_side = ''ask'', quote_price = 100002, quote_size = 1 / 20,
                      quote_timestamp = 1000\<rparr>),
              \<lparr>config = MarketMakingConfig_default, is_active = False,
                 last_quote_time = 1000,
                 current_bid = Some \<lparr>quote_side = ''bid'', quote_price = 100000,
                                     quote_size = 1 / 20, quote_timestamp = 1000\<rparr>,
                 current_ask = Some \<lparr>quote_side = ''ask'', quote_price = 100002,
                                     quote_size = 1 / 20, quote_timestamp = 1000\<rparr>,
                 quotes_posted = 0, quotes_updated = 1\<rparr>)
   \<and> 20001 / 20 - 1000
       \<le> quote_refresh_interval (config (SimpleMarketMaker_init MarketMakingConfig_default))
   \<and> update_quotes
        \<lparr>config = MarketMakingConfig_default, is_active = False,
           last_quote_time = 1000,
           current_bid = Some \<lparr>quote_side = ''bid'', quote_price = 100000,
                               quote_size = 1 / 20, quote_timestamp = 1000\<rparr>,
           current_ask = Some \<lparr>quote_side = ''ask'', quote_price = 100002,
                               quote_size = 1 / 20, quote_timestamp = 1000\<rparr>,
           quotes_posted = 0, quotes_updated = 1\<rparr>
        [\<lparr>level_price = 100000, level_size = 1\<rparr>] [\<lparr>level_price = 100002, level_size = 1\<rparr>]
        0 0 0 (20001 / 20) (20001 / 20) (20001 / 20)
       = Inr ((None, None),
              \<lparr>config = MarketMakingConfig_default, is_active = False,
                 last_quote_time = 1000,
                 current_bid = Some \<lparr>quote_side = ''bid'', quote_price = 100000,
                                     quote_size = 1 / 20, quote_timestamp = 1000\<rparr>,
                 current_ask = Some \<lparr>quote_side = ''ask'', quote_price = 100002,
                                     quote_size = 1 / 20, quote_timestamp = 1000\<rparr>,
                 quotes_posted = 0, quotes_updated = 1\<rparr>)
   \<and> \<not> should_update_quotes
        \<lparr>config = MarketMakingConfig_default, is_active = False,
           last_quote_time = 1000,
           current_bid = Some \<lparr>quote_side = ''bid'', quote_price = 100000,
                               quote_size = 1 / 20, quote_timestamp = 1000\<rparr>,
           current_ask = Some \<lparr>quote_side = ''ask'', quote_price = 100002,
                               quote_size = 1 / 20, quote_timestamp = 1000\<rparr>,
           quotes_posted = 0, quotes_updated = 1\<rparr> (20001 / 20)
   \<and> generate_quotes (config (SimpleMarketMaker_init MarketMakingConfig_default))
        [\<lparr>level_price = 100000, level_size = 1\<rparr>] [\<lparr>level_price = 100002, level_size = 1\<rparr>]
        0 0 0 1000
       = Inr (Some \<lparr>quote_side = ''bid'', quote_price = 100000, quote_size = 1 / 20,
                     quote_timestamp = 1000\<rparr>,
              Some \<lparr>quote_side = ''ask'', quote_price = 100002, quote_size = 1 / 20,
                     quote_timestamp = 1000\<rparr>)
   \<and> quote_changed (current_bid (SimpleMarketMaker_init MarketMakingConfig_default))
        (Some \<lparr>quote_side = ''bid'', quote_price = 100000, quote_size = 1 / 20,
               quote_timestamp = 1000\<rparr>)"
proof -
  let ?init = "SimpleMarketMaker_init MarketMakingConfig_default"
  let ?bids = "[\<lparr>level_price = 100000, level_size = 1\<rparr>]"
  let ?asks = "[\<lparr>level_price = 100002, level_size = 1\<rparr>]"
  let ?bq = "\<lparr>quote_side = ''bid'', quote_price = 100000, quote_size = 1 / 20,
              quote_timestamp = 1000\<rparr>"
  let ?aq = "\<lparr>quote_side = ''ask'', quote_price = 100002, quote_size = 1 / 20,
              quote_timestamp = 1000\<rparr>"
  let ?mm1 = "\<lparr>config = MarketMakingConfig_default, is_active = False,
                last_quote_time = 1000, current_bid = Some ?bq, current_ask = Some ?aq,
                quotes_posted = 0, quotes_updated = 1\<rparr>"
  have gate: "should_update_quotes ?init 1000"
    by (simp add: should_update_quotes_def SimpleMarketMaker_init_def
        MarketMakingConfig_default_def)
  have gen: "generate_quotes (config ?init) ?bids ?asks 0 0 0 1000 = Inr (Some ?bq, Some ?aq)"
    by (simp add: generate_quotes_def calculate_fair_price_def check_risk_limits_def
        calculate_order_size_def py_div_def SimpleMarketMaker_init_def
        MarketMakingConfig_default_def Let_def)
  have chg: "quote_changed (current_bid ?init) (Some ?bq)"
    by (simp add: quote_changed_def SimpleMarketMaker_init_def)
  have clock: "(1000 :: real) \<le> 1000" by simp
  have within: "20001 / 20 - 1000 \<le> quote_refresh_interval (config ?init)"
    by (simp add: SimpleMarketMaker_init_def MarketMakingConfig_default_def)
  have first: "update_quotes ?init ?bids ?asks 0 0 0 1000 1000 1000
                 = Inr ((Some ?bq, Some ?aq), ?mm1)"
    by (simp add: update_quotes_changed [OF gate gen disjI1 [OF chg]])
      (simp add: SimpleMarketMaker_init_def)
  have second: "update_quotes ?mm1 ?bids ?asks 0 0 0 (20001 / 20) (20001 / 20) (20001 / 20)
                  = Inr ((None, None), ?mm1)"
    by (rule update_quotes_refresh [THEN conjunct2, THEN conjunct1, THEN mp])
      (intro conjI, rule gate, rule first, rule clock, rule within)
  have closed: "\<not> should_update_quotes ?mm1 (20001 / 20)"
    by (simp add: should_update_quotes_def MarketMakingConfig_default_def)
  from gate first within second closed gen chg show ?thesis
    by (intro conjI)
qed

text \<open>
  The claim as stated fails when the first of the two calls is itself stopped at the
  gate. The strategy refreshes at time 1000 on the book 100000 / 100002. The book moves
  to 100001 / 100003 and stays there. A call at 1000.05 is stopped at the gate. A second
  call at 1000.12, 0.07 after the first and on the same book, passes the gate, finds
  the bid moved by 1 and returns the new pair.
\<close>

theorem update_quotes_second_call_counterexample:
  "update_quotes (SimpleMarketMaker_init MarketMakingConfig_default)
        [\<lparr>level_price = 100000, level_size = 1\<rparr>] [\<lparr>level_price = 100002, level_size = 1\<rparr>]
        0 0 0 1000 1000 1000
       = Inr ((Some \<lparr>quote_side = ''bid'', quote_price = 100000, quote_size = 1 / 20,
                      quote_timestamp = 1000\<rparr>,
               Some \<lparr>quote_side = ''ask'', quote_price = 100002, quote_size = 1 / 20,
                      quote_timestamp = 1000\<rparr>),
              \<lparr>config = MarketMakingConfig_default, is_active = False,
                 last_quote_time = 1000,
                 current_bid = Some \<lparr>quote_side = ''bid'', quote_price = 100000,
                                     quote_size = 1 / 20, quote_timestamp = 1000\<rparr>,
                 current_ask = Some \<lparr>quote_side = ''ask'', quote_price = 100002,
                                     quote_size = 1 / 20, quote_timestamp = 1000\<rparr>,
                 quotes_posted = 0, quotes_updated = 1\<rparr>)
   \<and> update_quotes
        \<lparr>config = MarketMakingConfig_default, is_active = False,
           last_quote_time = 1000,
           current_bid = Some \<lparr>quote_side = ''bid'', quote_price = 100000,
                               quote_size = 1 / 20, quote_timestamp = 1000\<rparr>,
           current_ask = Some \<lparr>quote_side = ''ask'', quote_price = 100002,
                               quote_size = 1 / 20, quote_timestamp = 1000\<rparr>,
           quotes_posted = 0, quotes_updated = 1\<rparr>
        [\<lparr>level_price = 100001, level_size = 1\<rparr>] [\<lparr>level_price = 100003, level_size = 1\<rparr>]
        0 0 0 (20001 / 20) (20001 / 20) (20001 / 20)
       = Inr ((None, None),
              \<lparr>config = MarketMakingConfig_default, is_active = False,
                 last_quote_time = 1000,
                 current_bid = Some \<lparr>quote_side = ''bid'', quote_price = 100000,
                                     quote_size = 1 / 20, quote_timestamp = 1000\<rparr>,
                 current_ask = Some \<lparr>quote_side = ''ask'', quote_price = 100002,
                                     quote_size = 1 / 20, quote_timestamp = 1000\<rparr>,
                 quotes_posted = 0, quotes_updated = 1\<rparr>)
   \<and> 25003 / 25 - 20001 / 20 \<le> quote_refresh_interval MarketMakingConfig_default
   \<and> update_quotes
        \<lparr>config = MarketMakingConfig_default, is_active = False,
           last_quote_time = 1000,
           current_bid = Some \<lparr>quote_side = ''bid'', quote_price = 100000,
                               quote_size = 1 / 20, quote_timestamp = 1000\<rparr>,
           current_ask = Some \<lparr>quote_side = ''ask'', quote_price = 100002,
                               quote_size = 1 / 20, quote_timestamp = 1000\<rparr>,
           quotes_posted = 0, quotes_updated = 1\<rparr>
        [\<lparr>level_price = 100001, level_size = 1\<rparr>] [\<lparr>level_price = 100003, level_size = 1\<rparr>]
        0 0 0 (25003 / 25) (25003 / 25) (25003 / 25)
       = Inr ((Some \<lparr>quote_side = ''bid'', quote_price = 100001, quote_size = 1 / 20,
                      quote_timestamp = 25003 / 25\<rparr>,
               Some \<lparr>quote_side = ''ask'', quote_price = 100003, quote_size = 1 / 20,
                      quote_timestamp = 25003 / 25\<rparr>),
              \<lparr>config = MarketMakingConfig_default, is_active = False,
                 last_quote_time = 25003 / 25,
                 current_bid = Some \<lparr>quote_side = ''bid'', quote_price = 100001,
                                     quote_size = 1 / 20, quote_timestamp = 25003 / 25\<rparr>,
                 current_ask = Some \<lparr>quote_side = ''ask'', quote_price = 100003,
                                     quote_size = 1 / 20, quote_timestamp = 25003 / 25\<rparr>,
                 quotes_posted = 0, quotes_updated = 2\<rparr>)"
proof (intro conjI)
  show "25003 / 25 - 20001 / 20 \<le> quote_refresh_interval MarketMakingConfig_default"
    by (simp add: MarketMakingConfig_default_def)
qed (simp_all add: update_quotes_def should_update_quotes_def generate_quotes_def
    calculate_fair_price_def check_risk_limits_def calculate_order_size_def py_div_def
    quote_changed_def SimpleMarketMaker_init_def MarketMakingConfig_default_def Let_def)

text \<open>
  The position is an input of the quotes as the book is: after the same refresh at time
  1000, a call at 1001 with no position passes the gate and finds no change, and a call
  at 1001.05 on the same book with a position of 3 finds the ask lowered by the skew and
  returns the new pair.
\<close>

lemma update_quotes_position_matters:
  "update_quotes
        \<lparr>config = MarketMakingConfig_default, is_active = False,
           last_quote_time = 1000,
           current_bid = Some \<lparr>quote_side = ''bid'', quote_price = 100000,
                               quote_size = 1 / 20, quote_timestamp = 1000\<rparr>,
           current_ask = Some \<lparr>quote_side = ''ask'', quote_price = 100002,
                               quote_size = 1 / 20, quote_timestamp = 1000\<rparr>,
           quotes_posted = 0, quotes_updated = 1\<rparr>
        [\<lparr>level_price = 100000, level_size = 1\<rparr>] [\<lparr>level_price = 100002, level_size = 1\<rparr>]
        0 0 0 1001 1001 1001
       = Inr ((None, None),
              \<lparr>config = MarketMakingConfig_default, is_active = False,
                 last_quote_time = 1000,
                 current_bid = Some \<lparr>quote_side = ''bid'', quote_price = 100000,
                                     quote_size = 1 / 20, quote_timestamp = 1000\<rparr>,
                 current_ask = Some \<lparr>quote_side = ''ask'', quote_price = 100002,
                                     quote_size = 1 / 20, quote_timestamp = 1000\<rparr>,
                 quotes_posted = 0, quotes_updated = 1\<rparr>)
   \<and> update_quotes
        \<lparr>config = MarketMakingConfig_default, is_active = False,
           last_quote_time = 1000,
           current_bid = Some \<lparr>quote_side = ''bid'', quote_price = 100000,
                               quote_size = 1 / 20, quote_timestamp = 1000\<rparr>,
           current_ask = Some \<lparr>quote_side = ''ask'', quote_price = 100002,
                               quote_size = 1 / 20, quote_timestamp = 1000\<rparr>,
           quotes_posted = 0, quotes_updated = 1\<rparr>
        [\<lparr>level_price = 100000, level_size = 1\<rparr>] [\<lparr>level_price = 100002, level_size = 1\<rparr>]
        3 0 0 (20021 / 20) (20021 / 20) (20021 / 20)
       = Inr ((Some \<lparr>quote_side = ''bid'', quote_price = 100000, quote_size = 1 / 20,
                      quote_timestamp = 20021 / 20\<rparr>,
               Some \<lparr>quote_side = ''ask'', quote_price = 10000001 / 100, quote_size = 1 / 20,
                      quote_timestamp = 20021 / 20\<rparr>),
              \<lparr>config = MarketMakingConfig_default, is_active = False,
                 last_quote_time = 20021 / 20,
                 current_bid = Some \<lparr>quote_side = ''bid'', quote_price = 100000,
                                     quote_size = 1 / 20, quote_timestamp = 20021 / 20\<rparr>,
                 current_ask = Some \<lparr>quote_side = ''ask'', quote_price = 10000001 / 100,
                                     quote_size = 1 / 20, quote_timestamp = 20021 / 20\<rparr>,
                 quotes_posted = 0, quotes_updated = 2\<rparr>)"
  by (simp add: update_quotes_def should_update_quotes_def generate_quotes_def
      calculate_fair_price_def check_risk_limits_def calculate_order_size_def py_div_def
      quote_changed_def MarketMakingConfig_default_def Let_def)


end
